theory Spec2Isabelle
  imports Main "HOL-Library.Monad_Syntax"
begin

section \<open>Values that cross the HTTP boundary\<close>

text \<open>
  A request body is a parsed JSON value. The carrier \<open>'n\<close> of JavaScript numbers is
  left abstract: the code under study only adds amounts (\<open>+\<close>), starts sums at \<open>0\<close> and tests
  numbers for truthiness, so nothing else is assumed about it. \<open>None\<close> of type
  \<open>'n json option\<close> stands for \<open>undefined\<close> (a key that is absent, a body that is missing).
  An object is an association list; a key is looked up with \<open>map_of\<close>.
\<close>

datatype 'n json =
    JNull
  | JBool bool
  | JNum 'n
  | JStr string
  | JArr "'n json list"
  | JObj "(string \<times> 'n json) list"

text \<open>Property access \<open>v?.k\<close> for the fixed keys the handlers read.\<close>

fun get_prop :: "'n json option \<Rightarrow> string \<Rightarrow> 'n json option" where
  "get_prop (Some (JObj kvs)) k = map_of kvs k"
| "get_prop _ k = None"

text \<open>JavaScript truthiness, \<open>typeof v === "object"\<close>, and the operators \<open>||\<close> and \<open>??\<close>.\<close>

fun truthy :: "('n::zero) json option \<Rightarrow> bool" where
  "truthy None = False"
| "truthy (Some JNull) = False"
| "truthy (Some (JBool b)) = b"
| "truthy (Some (JNum n)) = (n \<noteq> 0)"
| "truthy (Some (JStr s)) = (s \<noteq> [])"
| "truthy (Some (JArr xs)) = True"
| "truthy (Some (JObj kvs)) = True"

fun typeof_object :: "'n json option \<Rightarrow> bool" where
  "typeof_object (Some JNull) = True"
| "typeof_object (Some (JArr xs)) = True"
| "typeof_object (Some (JObj kvs)) = True"
| "typeof_object _ = False"

fun or_else :: "string option \<Rightarrow> string \<Rightarrow> string" where
  "or_else None d = d"
| "or_else (Some s) d = (if s = [] then d else s)"

fun nullish :: "'a option \<Rightarrow> 'a \<Rightarrow> 'a" where
  "nullish None d = d"
| "nullish (Some a) d = a"

text \<open>
  \<open>given v\<close>: an optional string is truthy, that is present and not empty; this is when
  \<open>v || d\<close> keeps \<open>v\<close>.
\<close>

definition given :: "string option \<Rightarrow> bool" where
  "given v = (case v of None \<Rightarrow> False | Some s \<Rightarrow> s \<noteq> [])"

text \<open>
  \<open>String(n)\<close> for an array index, and \<open>String.prototype.trim\<close>. A string is a list of
  8-bit characters, read as the code units up to \<open>0xFF\<close>. Of the white space and line
  terminators that \<open>trim\<close> removes, these are tab, line feed, vertical tab, form feed,
  carriage return, space and the no-break space \<open>U+00A0\<close>; code units above \<open>0xFF\<close> are
  not represented.
\<close>

definition digit_char :: "nat \<Rightarrow> char" where
  "digit_char d = ''0123456789'' ! d"

fun string_of_nat :: "nat \<Rightarrow> string" where
  "string_of_nat n =
     (if n < 10 then [digit_char n] else string_of_nat (n div 10) @ [digit_char (n mod 10)])"

definition is_space :: "char \<Rightarrow> bool" where
  "is_space c =
     (c \<in> set [CHR 0x09, CHR 0x0A, CHR 0x0B, CHR 0x0C, CHR 0x0D, CHR '' '', CHR 0xA0])"

definition trim :: "string \<Rightarrow> string" where
  "trim s = rev (dropWhile is_space (rev (dropWhile is_space s)))"

section \<open>Schema combinators\<close>

text \<open>
  The zod parsers used by the schemas. A parser reads the value found under a key
  (\<open>None\<close> when the key is absent) and returns \<open>None\<close> when \<open>safeParse\<close> reports
  \<open>success: false\<close>. Unknown keys of an object are stripped, which is zod's default.
\<close>

fun z_string :: "'n json option \<Rightarrow> string option" where
  "z_string (Some (JStr s)) = Some s"
| "z_string _ = None"

fun z_number :: "'n json option \<Rightarrow> 'n option" where
  "z_number (Some (JNum n)) = Some n"
| "z_number _ = None"

fun z_boolean :: "'n json option \<Rightarrow> bool option" where
  "z_boolean (Some (JBool b)) = Some b"
| "z_boolean _ = None"

fun z_optional :: "('n json option \<Rightarrow> 'a option) \<Rightarrow> 'n json option \<Rightarrow> 'a option option" where
  "z_optional p None = Some None"
| "z_optional p (Some v) = map_option Some (p (Some v))"

fun z_array :: "('n json option \<Rightarrow> 'a option) \<Rightarrow> 'n json option \<Rightarrow> 'a list option" where
  "z_array p (Some (JArr xs)) = those (map (\<lambda>x. p (Some x)) xs)"
| "z_array p _ = None"

fun z_record_any :: "'n json option \<Rightarrow> (string \<times> 'n json) list option" where
  "z_record_any (Some (JObj kvs)) = Some kvs"
| "z_record_any _ = None"

fun z_enum :: "(string \<times> 'a) list \<Rightarrow> 'n json option \<Rightarrow> 'a option" where
  "z_enum table (Some (JStr s)) = map_of table s"
| "z_enum table _ = None"

section \<open>shared/schema.ts\<close>

datatype ProposalStageType = DOC_REVIEW | RISK_REVIEW | APPROVED | REJECTED | CHANGES_REQUESTED

datatype DecisionTypeType = APPROVE | REJECT | REQUEST_CHANGES

record 'n Member =
  memberId :: "string option"
  name :: "string option"
  firstName :: "string option"
  lastName :: "string option"
  loanAmount :: "'n option"
  requestedAmount :: "'n option"
  phone :: "string option"
  idNumber :: "string option"
  evidencePhotos :: "string list option"
  signature :: "string option"
  isLeader :: "bool option"

record 'n NormalizedMember =
  memberId :: string
  name :: string
  firstName :: "string option"
  lastName :: "string option"
  loanAmount :: 'n
  requestedAmount :: "'n option"
  phone :: "string option"
  idNumber :: "string option"
  evidencePhotos :: "string list option"
  signature :: "string option"
  isLeader :: "bool option"

record 'n ProposalPayload =
  groupId :: string
  groupName :: "string option"
  leaderName :: "string option"
  leaderPhone :: "string option"
  members :: "'n Member list"
  totalAmount :: "'n option"
  contractText :: "string option"
  evidencePhotos :: "string list option"
  formData :: "(string \<times> 'n json) list option"

record 'n NormalizedProposalPayload =
  groupId :: string
  groupName :: string
  leaderName :: string
  leaderPhone :: "string option"
  members :: "'n NormalizedMember list"
  totalAmount :: 'n
  contractText :: "string option"
  evidencePhotos :: "string list option"
  formData :: "(string \<times> 'n json) list option"

record 'n Proposal =
  proposalId :: string
  stage :: ProposalStageType
  submittedAt :: string
  payload :: "'n NormalizedProposalPayload"

record Decision =
  decisionId :: string
  proposalId :: string
  stage :: ProposalStageType
  decision :: DecisionTypeType
  reasons :: "string list"
  comment :: "string option"
  userId :: string
  createdAt :: string

record InsertDecision =
  stage :: ProposalStageType
  decision :: DecisionTypeType
  reasons :: "string list"
  comment :: "string option"
  userId :: string

record 'n ProposalDetail =
  proposalId :: string
  stage :: ProposalStageType
  submittedAt :: string
  payload :: "'n NormalizedProposalPayload"
  decisions :: "Decision list"

subsection \<open>memberSchema and normalizeMember\<close>

definition member_has_name :: "'n Member \<Rightarrow> bool" where
  "member_has_name data =
     (given (Member.name data)
      \<or> (given (Member.firstName data) \<and> given (Member.lastName data)))"

definition member_has_amount :: "'n Member \<Rightarrow> bool" where
  "member_has_amount data =
     (Member.loanAmount data \<noteq> None \<or> Member.requestedAmount data \<noteq> None)"

fun memberSchema :: "'n json option \<Rightarrow> 'n Member option" where
  "memberSchema (Some (JObj kvs)) =
     do {
       v_memberId \<leftarrow> z_optional z_string (map_of kvs ''memberId'');
       v_name \<leftarrow> z_optional z_string (map_of kvs ''name'');
       v_firstName \<leftarrow> z_optional z_string (map_of kvs ''firstName'');
       v_lastName \<leftarrow> z_optional z_string (map_of kvs ''lastName'');
       v_loanAmount \<leftarrow> z_optional z_number (map_of kvs ''loanAmount'');
       v_requestedAmount \<leftarrow> z_optional z_number (map_of kvs ''requestedAmount'');
       v_phone \<leftarrow> z_optional z_string (map_of kvs ''phone'');
       v_idNumber \<leftarrow> z_optional z_string (map_of kvs ''idNumber'');
       v_evidencePhotos \<leftarrow> z_optional (z_array z_string) (map_of kvs ''evidencePhotos'');
       v_signature \<leftarrow> z_optional z_string (map_of kvs ''signature'');
       v_isLeader \<leftarrow> z_optional z_boolean (map_of kvs ''isLeader'');
       let data = \<lparr> Member.memberId = v_memberId, Member.name = v_name,
                    Member.firstName = v_firstName, Member.lastName = v_lastName,
                    Member.loanAmount = v_loanAmount,
                    Member.requestedAmount = v_requestedAmount,
                    Member.phone = v_phone, Member.idNumber = v_idNumber,
                    Member.evidencePhotos = v_evidencePhotos,
                    Member.signature = v_signature, Member.isLeader = v_isLeader \<rparr>;
       if member_has_name data \<and> member_has_amount data then Some data else None
     }"
| "memberSchema _ = None"

definition normalizeMember :: "('n::zero) Member \<Rightarrow> nat \<Rightarrow> 'n NormalizedMember" where
  "normalizeMember member index =
     (let name = or_else (Member.name member)
                   (trim (or_else (Member.firstName member) [] @ '' ''
                          @ or_else (Member.lastName member) []));
          loanAmount = nullish (Member.loanAmount member)
                         (nullish (Member.requestedAmount member) 0)
      in \<lparr> NormalizedMember.memberId =
              or_else (Member.memberId member) (''M'' @ string_of_nat (index + 1)),
           NormalizedMember.name = name,
           NormalizedMember.firstName = Member.firstName member,
           NormalizedMember.lastName = Member.lastName member,
           NormalizedMember.loanAmount = loanAmount,
           NormalizedMember.requestedAmount = Member.requestedAmount member,
           NormalizedMember.phone = Member.phone member,
           NormalizedMember.idNumber = Member.idNumber member,
           NormalizedMember.evidencePhotos = Member.evidencePhotos member,
           NormalizedMember.signature = Member.signature member,
           NormalizedMember.isLeader = Member.isLeader member \<rparr>)"

subsection \<open>proposalPayloadSchema and normalizeProposalPayload\<close>

fun proposalPayloadSchema :: "'n json option \<Rightarrow> 'n ProposalPayload option" where
  "proposalPayloadSchema (Some (JObj kvs)) =
     do {
       v_groupId \<leftarrow> z_string (map_of kvs ''groupId'');
       v_groupName \<leftarrow> z_optional z_string (map_of kvs ''groupName'');
       v_leaderName \<leftarrow> z_optional z_string (map_of kvs ''leaderName'');
       v_leaderPhone \<leftarrow> z_optional z_string (map_of kvs ''leaderPhone'');
       v_members \<leftarrow> z_array memberSchema (map_of kvs ''members'');
       v_totalAmount \<leftarrow> z_optional z_number (map_of kvs ''totalAmount'');
       v_contractText \<leftarrow> z_optional z_string (map_of kvs ''contractText'');
       v_evidencePhotos \<leftarrow> z_optional (z_array z_string) (map_of kvs ''evidencePhotos'');
       v_formData \<leftarrow> z_optional z_record_any (map_of kvs ''formData'');
       if 1 \<le> length v_members
       then Some \<lparr> ProposalPayload.groupId = v_groupId,
                    ProposalPayload.groupName = v_groupName,
                    ProposalPayload.leaderName = v_leaderName,
                    ProposalPayload.leaderPhone = v_leaderPhone,
                    ProposalPayload.members = v_members,
                    ProposalPayload.totalAmount = v_totalAmount,
                    ProposalPayload.contractText = v_contractText,
                    ProposalPayload.evidencePhotos = v_evidencePhotos,
                    ProposalPayload.formData = v_formData \<rparr>
       else None
     }"
| "proposalPayloadSchema _ = None"

text \<open>\<open>xs.map((m, i) => f(m, i))\<close>, the index counted from \<open>i\<close>.\<close>

primrec map_index :: "('a \<Rightarrow> nat \<Rightarrow> 'b) \<Rightarrow> nat \<Rightarrow> 'a list \<Rightarrow> 'b list" where
  "map_index f i [] = []"
| "map_index f i (x # xs) = f x i # map_index f (Suc i) xs"

text \<open>\<open>members.find(m => m.isLeader) || members[0]\<close>; \<open>None\<close> is \<open>undefined\<close>.\<close>

definition find_leader :: "'n NormalizedMember list \<Rightarrow> 'n NormalizedMember option" where
  "find_leader ms =
     (case find (\<lambda>m. NormalizedMember.isLeader m = Some True) ms of
        Some m \<Rightarrow> Some m
      | None \<Rightarrow> (case ms of [] \<Rightarrow> None | m # rest \<Rightarrow> Some m))"

definition normalizeProposalPayload ::
  "('n::{zero,plus}) ProposalPayload \<Rightarrow> 'n NormalizedProposalPayload" where
  "normalizeProposalPayload input =
     (let members = map_index normalizeMember 0 (ProposalPayload.members input);
          leader = find_leader members;
          totalAmount = nullish (ProposalPayload.totalAmount input)
                          (foldl (\<lambda>sum m. sum + NormalizedMember.loanAmount m) 0 members)
      in \<lparr> NormalizedProposalPayload.groupId = ProposalPayload.groupId input,
           NormalizedProposalPayload.groupName =
             or_else (ProposalPayload.groupName input)
               (''Group '' @ ProposalPayload.groupId input),
           NormalizedProposalPayload.leaderName =
             or_else (ProposalPayload.leaderName input)
               (or_else (map_option NormalizedMember.name leader) ''Unknown''),
           NormalizedProposalPayload.leaderPhone = ProposalPayload.leaderPhone input,
           NormalizedProposalPayload.members = members,
           NormalizedProposalPayload.totalAmount = totalAmount,
           NormalizedProposalPayload.contractText = ProposalPayload.contractText input,
           NormalizedProposalPayload.evidencePhotos = ProposalPayload.evidencePhotos input,
           NormalizedProposalPayload.formData = ProposalPayload.formData input \<rparr>)"

subsection \<open>insertDecisionSchema\<close>

fun insertDecisionSchema :: "'n json option \<Rightarrow> InsertDecision option" where
  "insertDecisionSchema (Some (JObj kvs)) =
     do {
       v_stage \<leftarrow> z_enum [(''DOC_REVIEW'', DOC_REVIEW), (''RISK_REVIEW'', RISK_REVIEW)]
                   (map_of kvs ''stage'');
       v_decision \<leftarrow> z_enum [(''APPROVE'', APPROVE), (''REJECT'', REJECT),
                             (''REQUEST_CHANGES'', REQUEST_CHANGES)]
                      (map_of kvs ''decision'');
       v_reasons \<leftarrow> z_array z_string (map_of kvs ''reasons'');
       v_comment \<leftarrow> z_optional z_string (map_of kvs ''comment'');
       v_userId \<leftarrow> z_string (map_of kvs ''userId'');
       Some \<lparr> InsertDecision.stage = v_stage, InsertDecision.decision = v_decision,
              InsertDecision.reasons = v_reasons, InsertDecision.comment = v_comment,
              InsertDecision.userId = v_userId \<rparr>
     }"
| "insertDecisionSchema _ = None"

section \<open>The repository the handlers talk to\<close>

text \<open>
  \<open>server/routes.ts\<close> reaches persistence only through the calls
  \<open>storage.createProposal\<close>, \<open>storage.getProposalDetail\<close>, \<open>storage.createDecision\<close> and
  \<open>storage.updateProposalStage\<close>. The handlers are therefore written against an interface:
  a record of operations over a repository state \<open>'s\<close>, the state passed in and returned.
  Each call is awaited inside the handler's \<open>try\<close> block: it either returns a value or
  throws (the promise is rejected), and a writing call leaves a repository state behind
  in both cases. A read does not change the state. The interleaving of two requests is
  outside this model.
\<close>

datatype 'a outcome = Returned 'a | Thrown

record ('s, 'n) IStorage =
  createProposal :: "'s \<Rightarrow> 'n NormalizedProposalPayload \<Rightarrow> 'n Proposal outcome \<times> 's"
  getProposalDetail :: "'s \<Rightarrow> string \<Rightarrow> 'n ProposalDetail option outcome"
  createDecision :: "'s \<Rightarrow> string \<Rightarrow> InsertDecision \<Rightarrow> Decision outcome \<times> 's"
  updateProposalStage :: "'s \<Rightarrow> string \<Rightarrow> ProposalStageType \<Rightarrow> unit outcome \<times> 's"

section \<open>server/routes.ts\<close>

subsection \<open>POST /api/proposals/submit\<close>

text \<open>
  The 400 answer carries \<open>meta.wrapped\<close>, \<open>meta.incomingProposalId\<close> and
  \<open>meta.normalizedKeys\<close>; the 201 answer carries the identifier, stage and time stamp of
  the stored proposal; the \<open>catch\<close> block answers 500. The list of zod issues and the
  console output are not modelled.
\<close>

datatype 'n submit_response =
    InvalidProposalPayload bool "'n json" "string list"
  | ProposalCreated string ProposalStageType string
  | SubmitServerError

fun submit_status :: "'n submit_response \<Rightarrow> nat" where
  "submit_status (InvalidProposalPayload w i ks) = 400"
| "submit_status (ProposalCreated i st t) = 201"
| "submit_status SubmitServerError = 500"

fun object_keys :: "'n json \<Rightarrow> string list" where
  "object_keys (JObj kvs) = map fst kvs"
| "object_keys (JArr xs) = map string_of_nat [0..<length xs]"
| "object_keys (JStr s) = map string_of_nat [0..<length s]"
| "object_keys _ = []"

text \<open>\<open>a ?? b\<close> on values that may be \<open>undefined\<close> or \<open>null\<close>.\<close>

fun nullish_json :: "'n json option \<Rightarrow> 'n json option \<Rightarrow> 'n json option" where
  "nullish_json None b = b"
| "nullish_json (Some JNull) b = b"
| "nullish_json (Some a) b = Some a"

text \<open>\<open>req.body ?? {}\<close>.\<close>

definition rawBody_of :: "'n json option \<Rightarrow> 'n json" where
  "rawBody_of body = nullish (nullish_json body None) (JObj [])"

text \<open>
  \<open>rawBody?.payload && typeof rawBody.payload === "object" ? rawBody.payload : rawBody\<close>
\<close>

definition normalizedBody_of :: "('n::zero) json \<Rightarrow> 'n json" where
  "normalizedBody_of rawBody =
     (case get_prop (Some rawBody) ''payload'' of
        None \<Rightarrow> rawBody
      | Some inner \<Rightarrow>
          if truthy (Some inner) \<and> typeof_object (Some inner) then inner else rawBody)"

definition incomingProposalId_of :: "'n json \<Rightarrow> 'n json \<Rightarrow> 'n json" where
  "incomingProposalId_of rawBody normalizedBody =
     nullish (nullish_json (get_prop (Some rawBody) ''proposalId'')
                (nullish_json (get_prop (Some normalizedBody) ''proposalId'') None))
       JNull"

definition submit ::
  "('s, 'n::{zero,plus}) IStorage \<Rightarrow> 's \<Rightarrow> 'n json option \<Rightarrow> 'n submit_response \<times> 's" where
  "submit storage db body =
     (let rawBody = rawBody_of body;
          normalizedBody = normalizedBody_of rawBody;
          incomingProposalId = incomingProposalId_of rawBody normalizedBody
      in case proposalPayloadSchema (Some normalizedBody) of
           None \<Rightarrow>
             (InvalidProposalPayload (truthy (get_prop (Some rawBody) ''payload''))
                incomingProposalId (object_keys normalizedBody), db)
         | Some parsed \<Rightarrow>
             (let normalizedPayload = normalizeProposalPayload parsed
              in case createProposal storage db normalizedPayload of
                   (Thrown, db') \<Rightarrow> (SubmitServerError, db')
                 | (Returned proposal, db') \<Rightarrow>
                     (ProposalCreated (Proposal.proposalId proposal) (Proposal.stage proposal)
                        (Proposal.submittedAt proposal), db')))"

subsection \<open>POST /api/gate/proposals/:proposalId/decision\<close>

datatype decision_response =
    InvalidDecisionPayload
  | ProposalNotFound
  | CompletedProposal ProposalStageType
  | StageMismatch ProposalStageType ProposalStageType
  | InvalidApprovalStage
  | InvalidDecisionType
  | DecisionCreated string ProposalStageType ProposalStageType DecisionTypeType
  | InternalServerError

fun decision_status :: "decision_response \<Rightarrow> nat" where
  "decision_status InvalidDecisionPayload = 400"
| "decision_status ProposalNotFound = 404"
| "decision_status (CompletedProposal st) = 400"
| "decision_status (StageMismatch cur claimed) = 400"
| "decision_status InvalidApprovalStage = 400"
| "decision_status InvalidDecisionType = 400"
| "decision_status (DecisionCreated i prev new d) = 201"
| "decision_status InternalServerError = 500"

text \<open>
  Lines 230--250, the choice of the new stage. The chain of tests and its two
  \<open>return res.status(400)\<close> branches are kept as written; \<open>Inl\<close> is such a return.
\<close>

definition newStage_of :: "InsertDecision \<Rightarrow> decision_response + ProposalStageType" where
  "newStage_of decisionData =
     (if InsertDecision.decision decisionData = REJECT then Inr REJECTED
      else if InsertDecision.decision decisionData = REQUEST_CHANGES then Inr CHANGES_REQUESTED
      else if InsertDecision.decision decisionData = APPROVE then
        (if InsertDecision.stage decisionData = DOC_REVIEW then Inr RISK_REVIEW
         else if InsertDecision.stage decisionData = RISK_REVIEW then Inr APPROVED
         else Inl InvalidApprovalStage)
      else Inl InvalidDecisionType)"

text \<open>
  The handler from line 200 on, once \<open>safeParse\<close> has succeeded. A storage call that
  throws ends the request in the \<open>catch\<close> block (lines 266--269) with the answer 500, the
  repository being what the calls made so far have left.
\<close>

definition decide_parsed ::
  "('s, 'n) IStorage \<Rightarrow> 's \<Rightarrow> string \<Rightarrow> InsertDecision \<Rightarrow> decision_response \<times> 's" where
  "decide_parsed storage db pid decisionData =
     (case getProposalDetail storage db pid of
        Thrown \<Rightarrow> (InternalServerError, db)
      | Returned None \<Rightarrow> (ProposalNotFound, db)
      | Returned (Some proposal) \<Rightarrow>
          if ProposalDetail.stage proposal = APPROVED \<or> ProposalDetail.stage proposal = REJECTED
          then (CompletedProposal (ProposalDetail.stage proposal), db)
          else if ProposalDetail.stage proposal \<noteq> InsertDecision.stage decisionData
          then (StageMismatch (ProposalDetail.stage proposal)
                  (InsertDecision.stage decisionData), db)
          else
            (case createDecision storage db pid decisionData of
               (Thrown, db1) \<Rightarrow> (InternalServerError, db1)
             | (Returned created, db1) \<Rightarrow>
                 (case newStage_of decisionData of
                    Inl refusal \<Rightarrow> (refusal, db1)
                  | Inr newStage \<Rightarrow>
                      (case updateProposalStage storage db1 pid newStage of
                         (Thrown, db2) \<Rightarrow> (InternalServerError, db2)
                       | (Returned finished, db2) \<Rightarrow>
                           (DecisionCreated (Decision.decisionId created)
                              (ProposalDetail.stage proposal) newStage
                              (InsertDecision.decision decisionData), db2)))))"

definition decide ::
  "('s, 'n) IStorage \<Rightarrow> 's \<Rightarrow> string \<Rightarrow> 'm json option \<Rightarrow> decision_response \<times> 's" where
  "decide storage db pid body =
     (case insertDecisionSchema body of
        None \<Rightarrow> (InvalidDecisionPayload, db)
      | Some decisionData \<Rightarrow> decide_parsed storage db pid decisionData)"

section \<open>An in-memory repository\<close>

text \<open>
  Modelled from the spec: \<open>server/storage.ts\<close> is not among the sources. The repository
  of the specification (sections 3, 4.5 and 6) keeps the proposals and an append-only
  history of decisions, assigns identifiers, creates a proposal at stage \<open>DOC_REVIEW\<close>,
  and returns a proposal together with its decisions. Identifiers and time stamps are
  drawn from a counter. Its calls always return. It is used to run the handlers on
  concrete requests.
\<close>

record 'n MemStorage =
  proposals :: "'n Proposal list"
  history :: "Decision list"
  counter :: nat

definition mem_createProposal ::
  "'n MemStorage \<Rightarrow> 'n NormalizedProposalPayload \<Rightarrow> 'n Proposal \<times> 'n MemStorage" where
  "mem_createProposal db normalized =
     (let proposal = \<lparr> Proposal.proposalId = ''P'' @ string_of_nat (counter db),
                        Proposal.stage = DOC_REVIEW,
                        Proposal.submittedAt = string_of_nat (counter db),
                        Proposal.payload = normalized \<rparr>
      in (proposal, db\<lparr> proposals := proposals db @ [proposal], counter := Suc (counter db) \<rparr>))"

definition mem_getProposalDetail :: "'n MemStorage \<Rightarrow> string \<Rightarrow> 'n ProposalDetail option" where
  "mem_getProposalDetail db pid =
     (case find (\<lambda>p. Proposal.proposalId p = pid) (proposals db) of
        None \<Rightarrow> None
      | Some p \<Rightarrow>
          Some \<lparr> ProposalDetail.proposalId = Proposal.proposalId p,
                 ProposalDetail.stage = Proposal.stage p,
                 ProposalDetail.submittedAt = Proposal.submittedAt p,
                 ProposalDetail.payload = Proposal.payload p,
                 ProposalDetail.decisions =
                   filter (\<lambda>d. Decision.proposalId d = pid) (history db) \<rparr>)"

definition mem_createDecision ::
  "'n MemStorage \<Rightarrow> string \<Rightarrow> InsertDecision \<Rightarrow> Decision \<times> 'n MemStorage" where
  "mem_createDecision db pid decisionData =
     (let created = \<lparr> Decision.decisionId = ''D'' @ string_of_nat (counter db),
                       Decision.proposalId = pid,
                       Decision.stage = InsertDecision.stage decisionData,
                       Decision.decision = InsertDecision.decision decisionData,
                       Decision.reasons = InsertDecision.reasons decisionData,
                       Decision.comment = InsertDecision.comment decisionData,
                       Decision.userId = InsertDecision.userId decisionData,
                       Decision.createdAt = string_of_nat (counter db) \<rparr>
      in (created, db\<lparr> history := history db @ [created], counter := Suc (counter db) \<rparr>))"

definition mem_updateProposalStage ::
  "'n MemStorage \<Rightarrow> string \<Rightarrow> ProposalStageType \<Rightarrow> 'n MemStorage" where
  "mem_updateProposalStage db pid newStage =
     db\<lparr> proposals :=
           map (\<lambda>p. if Proposal.proposalId p = pid then p\<lparr> Proposal.stage := newStage \<rparr> else p)
             (proposals db) \<rparr>"

definition memStorage :: "('n MemStorage, 'n) IStorage" where
  "memStorage =
     \<lparr> createProposal =
         (\<lambda>db normalized. (Returned (fst (mem_createProposal db normalized)),
                            snd (mem_createProposal db normalized))),
       getProposalDetail = (\<lambda>db pid. Returned (mem_getProposalDetail db pid)),
       createDecision =
         (\<lambda>db pid decisionData. (Returned (fst (mem_createDecision db pid decisionData)),
                                  snd (mem_createDecision db pid decisionData))),
       updateProposalStage =
         (\<lambda>db pid newStage. (Returned (), mem_updateProposalStage db pid newStage)) \<rparr>"

text \<open>
  The same repository with a stage update that throws and writes nothing, as
  \<open>storage.updateProposalStage\<close> does when its promise is rejected.
\<close>

definition stageUpdateThrows :: "('n MemStorage, 'n) IStorage" where
  "stageUpdateThrows =
     memStorage\<lparr> updateProposalStage := (\<lambda>db pid newStage. (Thrown, db)) \<rparr>"

section \<open>Reference statements and sample requests\<close>

text \<open>
  The transition table of the specification (section 4.4, rules 3 to 5), written from
  its words: the next stage for a decision taken at a non-terminal stage, \<open>None\<close> where
  the approval is refused as an invalid approval stage.
\<close>

definition reference_transition ::
  "ProposalStageType \<Rightarrow> DecisionTypeType \<Rightarrow> ProposalStageType option" where
  "reference_transition current d =
     (case d of
        REJECT \<Rightarrow> Some REJECTED
      | REQUEST_CHANGES \<Rightarrow> Some CHANGES_REQUESTED
      | APPROVE \<Rightarrow>
          (case current of
             DOC_REVIEW \<Rightarrow> Some RISK_REVIEW
           | RISK_REVIEW \<Rightarrow> Some APPROVED
           | _ \<Rightarrow> None))"

text \<open>
  A normalized member or payload read at the type of the input: every field of the
  normalized record is a field of the input record, the required ones now present.
  This is how a normalized payload is handed to \<open>normalizeProposalPayload\<close> again.
\<close>

definition as_Member :: "'n NormalizedMember \<Rightarrow> 'n Member" where
  "as_Member m =
     \<lparr> Member.memberId = Some (NormalizedMember.memberId m),
       Member.name = Some (NormalizedMember.name m),
       Member.firstName = NormalizedMember.firstName m,
       Member.lastName = NormalizedMember.lastName m,
       Member.loanAmount = Some (NormalizedMember.loanAmount m),
       Member.requestedAmount = NormalizedMember.requestedAmount m,
       Member.phone = NormalizedMember.phone m,
       Member.idNumber = NormalizedMember.idNumber m,
       Member.evidencePhotos = NormalizedMember.evidencePhotos m,
       Member.signature = NormalizedMember.signature m,
       Member.isLeader = NormalizedMember.isLeader m \<rparr>"

definition as_ProposalPayload :: "'n NormalizedProposalPayload \<Rightarrow> 'n ProposalPayload" where
  "as_ProposalPayload p =
     \<lparr> ProposalPayload.groupId = NormalizedProposalPayload.groupId p,
       ProposalPayload.groupName = Some (NormalizedProposalPayload.groupName p),
       ProposalPayload.leaderName = Some (NormalizedProposalPayload.leaderName p),
       ProposalPayload.leaderPhone = NormalizedProposalPayload.leaderPhone p,
       ProposalPayload.members = map as_Member (NormalizedProposalPayload.members p),
       ProposalPayload.totalAmount = Some (NormalizedProposalPayload.totalAmount p),
       ProposalPayload.contractText = NormalizedProposalPayload.contractText p,
       ProposalPayload.evidencePhotos = NormalizedProposalPayload.evidencePhotos p,
       ProposalPayload.formData = NormalizedProposalPayload.formData p \<rparr>"

text \<open>A body that itself holds an object (or array) under the key \<open>payload\<close>.\<close>

definition carries_payload :: "('n::zero) json \<Rightarrow> bool" where
  "carries_payload b =
     (truthy (get_prop (Some b) ''payload'') \<and> typeof_object (get_prop (Some b) ''payload''))"

text \<open>Sample requests and repository states, with amounts in \<open>int\<close>.\<close>

definition empty_db :: "int MemStorage" where
  "empty_db = \<lparr> proposals = [], history = [], counter = 0 \<rparr>"

definition ana_body :: "int json" where
  "ana_body =
     JObj [(''groupId'', JStr ''G1''),
           (''members'', JArr [JObj [(''name'', JStr ''Ana''), (''loanAmount'', JNum 100)]])]"

definition ana_payload :: "int ProposalPayload" where
  "ana_payload =
     \<lparr> ProposalPayload.groupId = ''G1'', ProposalPayload.groupName = None,
       ProposalPayload.leaderName = None, ProposalPayload.leaderPhone = None,
       ProposalPayload.members =
         [\<lparr> Member.memberId = None, Member.name = Some ''Ana'', Member.firstName = None,
            Member.lastName = None, Member.loanAmount = Some 100,
            Member.requestedAmount = None, Member.phone = None, Member.idNumber = None,
            Member.evidencePhotos = None, Member.signature = None, Member.isLeader = None \<rparr>],
       ProposalPayload.totalAmount = None, ProposalPayload.contractText = None,
       ProposalPayload.evidencePhotos = None, ProposalPayload.formData = None \<rparr>"

definition bo_json :: "int json" where
  "bo_json =
     JObj [(''firstName'', JStr ''Bo''), (''lastName'', JStr ''Lee''),
           (''requestedAmount'', JNum 50)]"

definition bo_member :: "int Member" where
  "bo_member =
     \<lparr> Member.memberId = None, Member.name = None, Member.firstName = Some ''Bo'',
       Member.lastName = Some ''Lee'', Member.loanAmount = None,
       Member.requestedAmount = Some 50, Member.phone = None, Member.idNumber = None,
       Member.evidencePhotos = None, Member.signature = None, Member.isLeader = None \<rparr>"

text \<open>A member whose identifier is present and empty.\<close>

definition blank_id_json :: "int json" where
  "blank_id_json =
     JObj [(''memberId'', JStr []), (''name'', JStr ''Ana''), (''loanAmount'', JNum 100)]"

definition blank_id_member :: "int Member" where
  "blank_id_member =
     \<lparr> Member.memberId = Some [], Member.name = Some ''Ana'', Member.firstName = None,
       Member.lastName = None, Member.loanAmount = Some 100,
       Member.requestedAmount = None, Member.phone = None, Member.idNumber = None,
       Member.evidencePhotos = None, Member.signature = None, Member.isLeader = None \<rparr>"

text \<open>
  A payload whose group name and leader name are present and empty, and whose flagged
  leader has a first and a last name made of one space each.
\<close>

definition blank_names_body :: "int json" where
  "blank_names_body =
     JObj [(''groupId'', JStr ''G1''), (''groupName'', JStr []), (''leaderName'', JStr []),
           (''members'', JArr [JObj [(''name'', JStr ''Ana''), (''loanAmount'', JNum 100)],
                               JObj [(''firstName'', JStr '' ''), (''lastName'', JStr '' ''),
                                     (''loanAmount'', JNum 1), (''isLeader'', JBool True)]])]"

definition blank_names_payload :: "int ProposalPayload" where
  "blank_names_payload =
     \<lparr> ProposalPayload.groupId = ''G1'', ProposalPayload.groupName = Some [],
       ProposalPayload.leaderName = Some [], ProposalPayload.leaderPhone = None,
       ProposalPayload.members =
         [\<lparr> Member.memberId = None, Member.name = Some ''Ana'', Member.firstName = None,
            Member.lastName = None, Member.loanAmount = Some 100,
            Member.requestedAmount = None, Member.phone = None, Member.idNumber = None,
            Member.evidencePhotos = None, Member.signature = None, Member.isLeader = None \<rparr>,
          \<lparr> Member.memberId = None, Member.name = None, Member.firstName = Some '' '',
            Member.lastName = Some '' '', Member.loanAmount = Some 1,
            Member.requestedAmount = None, Member.phone = None, Member.idNumber = None,
            Member.evidencePhotos = None, Member.signature = None,
            Member.isLeader = Some True \<rparr>],
       ProposalPayload.totalAmount = None, ProposalPayload.contractText = None,
       ProposalPayload.evidencePhotos = None, ProposalPayload.formData = None \<rparr>"

text \<open>An envelope around a payload, and a valid payload that has a \<open>payload\<close> key of its own.\<close>

definition envelope_of :: "int json \<Rightarrow> int json" where
  "envelope_of inner = JObj [(''proposalId'', JStr ''ignored''), (''payload'', inner)]"

definition nested_payload_body :: "int json" where
  "nested_payload_body =
     JObj [(''groupId'', JStr ''G1''),
           (''members'', JArr [JObj [(''name'', JStr ''Ana''), (''loanAmount'', JNum 100)]]),
           (''payload'', JObj [])]"

definition db_doc_review :: "int MemStorage" where
  "db_doc_review = snd (submit memStorage empty_db (Some ana_body))"

definition db_approved :: "int MemStorage" where
  "db_approved = mem_updateProposalStage db_doc_review ''P0'' APPROVED"

definition decision_body :: "string \<Rightarrow> string \<Rightarrow> int json" where
  "decision_body claimed d =
     JObj [(''stage'', JStr claimed), (''decision'', JStr d),
           (''reasons'', JArr [JStr ''checked'']), (''userId'', JStr ''u1'')]"

definition parsed_decision :: "ProposalStageType \<Rightarrow> DecisionTypeType \<Rightarrow> InsertDecision" where
  "parsed_decision claimed d =
     \<lparr> InsertDecision.stage = claimed, InsertDecision.decision = d,
       InsertDecision.reasons = [''checked''], InsertDecision.comment = None,
       InsertDecision.userId = ''u1'' \<rparr>"

section \<open>The decision handler\<close>

subsection \<open>What the schema and the stage computation guarantee\<close>

lemma insertDecisionSchema_stage:
  "insertDecisionSchema body = Some d \<Longrightarrow>
     InsertDecision.stage d = DOC_REVIEW \<or> InsertDecision.stage d = RISK_REVIEW"
proof (cases body)
  case None
  then show "insertDecisionSchema body = Some d \<Longrightarrow> ?thesis" by simp
next
  case (Some v)
  assume p: "insertDecisionSchema body = Some d"
  show ?thesis
  proof (cases v)
    case (JObj kvs)
    with Some p show ?thesis
      by (cases "map_of kvs ''stage''"; cases "the (map_of kvs ''stage'')")
         (auto split: Option.bind_splits if_splits)
  qed (use Some p in simp_all)
qed

lemma newStage_of_after_schema:
  "InsertDecision.stage d = DOC_REVIEW \<or> InsertDecision.stage d = RISK_REVIEW \<Longrightarrow>
     \<exists>ns. newStage_of d = Inr ns"
  by (cases "InsertDecision.decision d") (auto simp: newStage_of_def)

text \<open>The handler after both guards: the two writes and the choice of the stage.\<close>

lemma decide_parsed_after_guards:
  assumes "getProposalDetail storage db pid = Returned (Some proposal)"
    and "ProposalDetail.stage proposal \<noteq> APPROVED"
    and "ProposalDetail.stage proposal \<noteq> REJECTED"
    and "ProposalDetail.stage proposal = InsertDecision.stage d"
  shows "decide_parsed storage db pid d =
           (case createDecision storage db pid d of
              (Thrown, db1) \<Rightarrow> (InternalServerError, db1)
            | (Returned created, db1) \<Rightarrow>
                (case newStage_of d of
                   Inl refusal \<Rightarrow> (refusal, db1)
                 | Inr newStage \<Rightarrow>
                     (case updateProposalStage storage db1 pid newStage of
                        (Thrown, db2) \<Rightarrow> (InternalServerError, db2)
                      | (Returned finished, db2) \<Rightarrow>
                          (DecisionCreated (Decision.decisionId created)
                             (ProposalDetail.stage proposal) newStage
                             (InsertDecision.decision d), db2))))"
  using assms by (simp add: decide_parsed_def)

text \<open>The handler before the first write: every answer leaves the repository as it was.\<close>

lemma decide_parsed_before_writes:
  assumes "getProposalDetail storage db pid = Returned (Some proposal)"
  shows "ProposalDetail.stage proposal = APPROVED \<or> ProposalDetail.stage proposal = REJECTED \<Longrightarrow>
           decide_parsed storage db pid d
             = (CompletedProposal (ProposalDetail.stage proposal), db)"
    and "ProposalDetail.stage proposal \<noteq> APPROVED \<Longrightarrow>
         ProposalDetail.stage proposal \<noteq> REJECTED \<Longrightarrow>
         ProposalDetail.stage proposal \<noteq> InsertDecision.stage d \<Longrightarrow>
           decide_parsed storage db pid d
             = (StageMismatch (ProposalDetail.stage proposal) (InsertDecision.stage d), db)"
  using assms by (auto simp: decide_parsed_def)

text \<open>
  Where \<open>newStage_of\<close> yields a stage, the handler after both guards answers 201 or 500,
  and nothing else.
\<close>

lemma after_guards_status:
  assumes "getProposalDetail storage db pid = Returned (Some proposal)"
    and "ProposalDetail.stage proposal \<noteq> APPROVED"
    and "ProposalDetail.stage proposal \<noteq> REJECTED"
    and "ProposalDetail.stage proposal = InsertDecision.stage d"
    and "newStage_of d = Inr ns"
  shows "decision_status (fst (decide_parsed storage db pid d)) = 201
         \<or> fst (decide_parsed storage db pid d) = InternalServerError"
proof -
  obtain r1 db1 where c: "createDecision storage db pid d = (r1, db1)"
    by (cases "createDecision storage db pid d")
  obtain r2 db2 where u: "updateProposalStage storage db1 pid ns = (r2, db2)"
    by (cases "updateProposalStage storage db1 pid ns")
  show ?thesis
    unfolding decide_parsed_after_guards [OF assms(1-4)]
    by (cases r1; cases r2) (simp_all add: c u assms(5))
qed



subsection \<open>The in-memory repository on the samples\<close>

lemma memStorage_calls:
  "getProposalDetail memStorage db pid = Returned (mem_getProposalDetail db pid)"
  "createDecision memStorage db pid d
     = (Returned (fst (mem_createDecision db pid d)), snd (mem_createDecision db pid d))"
  "updateProposalStage memStorage db pid st = (Returned (), mem_updateProposalStage db pid st)"
  "createProposal memStorage db normalized
     = (Returned (fst (mem_createProposal db normalized)),
        snd (mem_createProposal db normalized))"
  by (simp_all add: memStorage_def)

lemma stageUpdateThrows_calls:
  "getProposalDetail stageUpdateThrows db pid = Returned (mem_getProposalDetail db pid)"
  "createDecision stageUpdateThrows db pid d
     = (Returned (fst (mem_createDecision db pid d)), snd (mem_createDecision db pid d))"
  "updateProposalStage stageUpdateThrows db pid st = (Thrown, db)"
  by (simp_all add: stageUpdateThrows_def memStorage_def)

lemma approved_stage:
  "map_option ProposalDetail.stage (mem_getProposalDetail db_approved ''P0'') = Some APPROVED"
  by code_simp

lemma doc_review_stage:
  "map_option ProposalDetail.stage (mem_getProposalDetail db_doc_review ''P0'')
     = Some DOC_REVIEW"
  by code_simp

lemma parsed_decision_simps:
  "InsertDecision.stage (parsed_decision claimed d) = claimed"
  "InsertDecision.decision (parsed_decision claimed d) = d"
  by (simp_all add: parsed_decision_def)

lemma decision_body_parses:
  "insertDecisionSchema (Some (decision_body ''DOC_REVIEW'' ''APPROVE''))
     = Some (parsed_decision DOC_REVIEW APPROVE)"
  "insertDecisionSchema (Some (decision_body ''RISK_REVIEW'' ''APPROVE''))
     = Some (parsed_decision RISK_REVIEW APPROVE)"
  by (simp_all add: decision_body_def parsed_decision_def)

lemma first_decision_id:
  "Decision.decisionId (fst (mem_createDecision db_doc_review ''P0''
     (parsed_decision DOC_REVIEW d))) = ''D1''"
  by code_simp

subsection \<open>Rejections persist nothing\<close>

text \<open>
  C1. A decision request on an existing proposal that is answered with 400 or 404 (in
  particular one refused by the terminal-state guard, by the stale-stage guard or as an
  invalid approval stage) returns the repository exactly as it received it: no Decision
  record is created, and the proposal read back afterwards, stage and decision history
  included, is the one read before. The storage operations are arbitrary.
\<close>

theorem rejected_decision_persists_nothing:
  assumes "getProposalDetail storage db pid = Returned (Some proposal)"
    and "decide storage db pid body = (response, db')"
    and "decision_status response = 400 \<or> decision_status response = 404"
  shows "db' = db \<and> getProposalDetail storage db' pid = Returned (Some proposal)"
proof (cases "insertDecisionSchema body")
  case None
  with assms show ?thesis by (simp add: decide_def)
next
  case (Some d)
  then obtain ns where ns: "newStage_of d = Inr ns"
    using insertDecisionSchema_stage newStage_of_after_schema by blast
  from Some assms(2) have run: "decide_parsed storage db pid d = (response, db')"
    by (simp add: decide_def)
  have "db' = db"
  proof (cases "ProposalDetail.stage proposal = APPROVED
                \<or> ProposalDetail.stage proposal = REJECTED")
    case True
    with run show ?thesis
      by (simp add: decide_parsed_before_writes(1) [OF assms(1)])
  next
    case False
    show ?thesis
    proof (cases "ProposalDetail.stage proposal = InsertDecision.stage d")
      case True
      with False after_guards_status [OF assms(1) _ _ True ns] run assms(3) show ?thesis
        by auto
    next
      case mismatch: False
      with False run show ?thesis
        by (simp add: decide_parsed_before_writes(2) [OF assms(1)])
    qed
  qed
  with assms(1) show ?thesis by simp
qed

theorem rejected_decision_persists_nothing_witness:
  "fst (decide memStorage db_doc_review ''P0'' (Some (decision_body ''RISK_REVIEW'' ''APPROVE'')))
     = StageMismatch DOC_REVIEW RISK_REVIEW
   \<and> snd (decide memStorage db_doc_review ''P0'' (Some (decision_body ''RISK_REVIEW'' ''APPROVE'')))
     = db_doc_review"
proof -
  let ?run = "decide memStorage db_doc_review ''P0''
                (Some (decision_body ''RISK_REVIEW'' ''APPROVE''))"
  obtain proposal where "mem_getProposalDetail db_doc_review ''P0'' = Some proposal"
    using doc_review_stage by auto
  then have h1: "getProposalDetail memStorage db_doc_review ''P0'' = Returned (Some proposal)"
    by (simp add: memStorage_calls)
  have r: "fst ?run = StageMismatch DOC_REVIEW RISK_REVIEW"
    by code_simp
  have h2: "?run = (fst ?run, snd ?run)"
    by simp
  have h3: "decision_status (fst ?run) = 400 \<or> decision_status (fst ?run) = 404"
    by (simp add: r)
  from rejected_decision_persists_nothing [OF h1 h2 h3] r show ?thesis
    by simp
qed

subsection \<open>Terminal stages\<close>

text \<open>
  C2. When the proposal's current stage is \<open>APPROVED\<close> or \<open>REJECTED\<close>, every decision
  request is refused: a parsed request, whatever stage it claims and whichever of the
  three decisions it carries, gets the answer for completed proposals; a raw request
  body gets a 400; in both cases the repository is returned unchanged, so no decision is
  recorded and the proposal keeps its stage. The same holds after any sequence of
  requests.
\<close>

theorem terminal_stage_guard:
  fixes body :: "'m json option" and bodies :: "'m json option list"
  assumes "getProposalDetail storage db pid = Returned (Some proposal)"
    and "ProposalDetail.stage proposal = APPROVED \<or> ProposalDetail.stage proposal = REJECTED"
  shows "decide_parsed storage db pid decisionData
           = (CompletedProposal (ProposalDetail.stage proposal), db)
         \<and> decision_status (fst (decide storage db pid body)) = 400
         \<and> snd (decide storage db pid body) = db
         \<and> getProposalDetail storage (snd (decide storage db pid body)) pid
             = Returned (Some proposal)
         \<and> foldl (\<lambda>d b. snd (decide storage d pid b)) db bodies = db"
proof -
  have parsed: "decide_parsed storage db pid d
                  = (CompletedProposal (ProposalDetail.stage proposal), db)" for d
    using assms by (simp add: decide_parsed_before_writes(1))
  have raw: "decide storage db pid b = (InvalidDecisionPayload, db)
             \<or> decide storage db pid b
                 = (CompletedProposal (ProposalDetail.stage proposal), db)"
    for b :: "'m json option"
    by (simp add: decide_def parsed split: option.split)
  have status: "decision_status (fst (decide storage db pid b)) = 400"
    and same: "snd (decide storage db pid b) = db" for b :: "'m json option"
    using raw [of b] by auto
  have "foldl (\<lambda>d b. snd (decide storage d pid b)) db bodies = db"
    by (induction bodies) (simp_all add: same)
  with parsed status same assms(1) show ?thesis by simp
qed

theorem terminal_stage_guard_witness:
  "map_option ProposalDetail.stage (mem_getProposalDetail db_approved ''P0'') = Some APPROVED
   \<and> decide_parsed memStorage db_approved ''P0'' (parsed_decision RISK_REVIEW REJECT)
     = (CompletedProposal APPROVED, db_approved)
   \<and> decision_status (fst (decide memStorage db_approved ''P0''
        (Some (decision_body ''RISK_REVIEW'' ''REJECT'')))) = 400
   \<and> snd (decide memStorage db_approved ''P0''
        (Some (decision_body ''RISK_REVIEW'' ''REJECT''))) = db_approved"
proof -
  obtain proposal where "mem_getProposalDetail db_approved ''P0'' = Some proposal"
    and h2: "ProposalDetail.stage proposal = APPROVED"
    using approved_stage by auto
  then have h1: "getProposalDetail memStorage db_approved ''P0'' = Returned (Some proposal)"
    by (simp add: memStorage_calls)
  from h2 have h3: "ProposalDetail.stage proposal = APPROVED
                    \<or> ProposalDetail.stage proposal = REJECTED" ..
  show ?thesis
    using approved_stage h2
      terminal_stage_guard [OF h1 h3, of "parsed_decision RISK_REVIEW REJECT"
        "Some (decision_body ''RISK_REVIEW'' ''REJECT'')" "[]"]
    by simp
qed

subsection \<open>Stale decisions\<close>

text \<open>
  C3. When the proposal's current stage \<open>S\<close> is not terminal and the request claims a
  stage other than \<open>S\<close>, the request is refused by the stale-decision guard, the answer
  reports \<open>S\<close> and the claimed stage, and the repository is returned unchanged: the
  proposal's stage remains \<open>S\<close>. This holds for the parsed request and for any body that
  parses to it.
\<close>

theorem stale_decision_guard:
  assumes "getProposalDetail storage db pid = Returned (Some proposal)"
    and "ProposalDetail.stage proposal \<noteq> APPROVED"
    and "ProposalDetail.stage proposal \<noteq> REJECTED"
    and "InsertDecision.stage decisionData \<noteq> ProposalDetail.stage proposal"
  shows "decide_parsed storage db pid decisionData
           = (StageMismatch (ProposalDetail.stage proposal)
                (InsertDecision.stage decisionData), db)
         \<and> (insertDecisionSchema body = Some decisionData \<longrightarrow>
              decide storage db pid body
                = (StageMismatch (ProposalDetail.stage proposal)
                     (InsertDecision.stage decisionData), db))
         \<and> getProposalDetail storage (snd (decide_parsed storage db pid decisionData)) pid
             = Returned (Some proposal)"
proof -
  from assms(4) have "ProposalDetail.stage proposal \<noteq> InsertDecision.stage decisionData"
    by simp
  with assms(2,3) have "decide_parsed storage db pid decisionData
          = (StageMismatch (ProposalDetail.stage proposal)
               (InsertDecision.stage decisionData), db)"
    by (rule decide_parsed_before_writes(2) [OF assms(1)])
  with assms(1) show ?thesis
    by (simp add: decide_def)
qed

theorem stale_decision_guard_witness:
  "decide_parsed memStorage db_doc_review ''P0'' (parsed_decision RISK_REVIEW APPROVE)
     = (StageMismatch DOC_REVIEW RISK_REVIEW, db_doc_review)
   \<and> decide memStorage db_doc_review ''P0'' (Some (decision_body ''RISK_REVIEW'' ''APPROVE''))
     = (StageMismatch DOC_REVIEW RISK_REVIEW, db_doc_review)"
proof -
  obtain proposal where "mem_getProposalDetail db_doc_review ''P0'' = Some proposal"
    and st: "ProposalDetail.stage proposal = DOC_REVIEW"
    using doc_review_stage by auto
  then have h1: "getProposalDetail memStorage db_doc_review ''P0'' = Returned (Some proposal)"
    by (simp add: memStorage_calls)
  have h2: "ProposalDetail.stage proposal \<noteq> APPROVED"
    and h3: "ProposalDetail.stage proposal \<noteq> REJECTED"
    and h4: "InsertDecision.stage (parsed_decision RISK_REVIEW APPROVE)
               \<noteq> ProposalDetail.stage proposal"
    by (simp_all add: st parsed_decision_simps)
  from stale_decision_guard [OF h1 h2 h3 h4, of "Some (decision_body ''RISK_REVIEW'' ''APPROVE'')"]
  show ?thesis
    by (simp add: decision_body_parses st parsed_decision_simps)
qed

subsection \<open>The transition table\<close>

text \<open>
  C4. For a request that passes the terminal-state and stale-stage guards, the handler
  follows the reference table. Once the decision record is created: where the table
  gives a next stage (reject to \<open>REJECTED\<close>, request-changes to \<open>CHANGES_REQUESTED\<close>,
  approve from \<open>DOC_REVIEW\<close> to \<open>RISK_REVIEW\<close> and from \<open>RISK_REVIEW\<close> to \<open>APPROVED\<close>) the
  stage update is called with that stage and the answer is 201 with it; where the table
  gives none (approve from any other stage) the answer is \<open>Invalid approval stage\<close>. A
  storage call that throws gives the answer 500 instead.
\<close>

theorem transition_table:
  assumes "getProposalDetail storage db pid = Returned (Some proposal)"
    and "ProposalDetail.stage proposal \<noteq> APPROVED"
    and "ProposalDetail.stage proposal \<noteq> REJECTED"
    and "InsertDecision.stage decisionData = ProposalDetail.stage proposal"
  shows "decide_parsed storage db pid decisionData =
           (case createDecision storage db pid decisionData of
              (Thrown, db1) \<Rightarrow> (InternalServerError, db1)
            | (Returned created, db1) \<Rightarrow>
                (case reference_transition (ProposalDetail.stage proposal)
                        (InsertDecision.decision decisionData) of
                   None \<Rightarrow> (InvalidApprovalStage, db1)
                 | Some next_stage \<Rightarrow>
                     (case updateProposalStage storage db1 pid next_stage of
                        (Thrown, db2) \<Rightarrow> (InternalServerError, db2)
                      | (Returned finished, db2) \<Rightarrow>
                          (DecisionCreated (Decision.decisionId created)
                             (ProposalDetail.stage proposal) next_stage
                             (InsertDecision.decision decisionData), db2))))"
proof -
  have table: "newStage_of decisionData =
                 (case reference_transition (ProposalDetail.stage proposal)
                         (InsertDecision.decision decisionData) of
                    None \<Rightarrow> Inl InvalidApprovalStage
                  | Some next_stage \<Rightarrow> Inr next_stage)"
    using assms(2-4)
    by (cases "InsertDecision.decision decisionData"; cases "ProposalDetail.stage proposal")
       (simp_all add: newStage_of_def reference_transition_def)
  from assms(4) have "ProposalDetail.stage proposal = InsertDecision.stage decisionData"
    by simp
  from decide_parsed_after_guards [OF assms(1-3) this] show ?thesis
    by (simp add: table split: prod.split outcome.split option.split)
qed

theorem transition_table_witness:
  "fst (decide_parsed memStorage db_doc_review ''P0'' (parsed_decision DOC_REVIEW APPROVE))
     = DecisionCreated ''D1'' DOC_REVIEW RISK_REVIEW APPROVE
   \<and> fst (decide_parsed memStorage db_doc_review ''P0'' (parsed_decision DOC_REVIEW REJECT))
     = DecisionCreated ''D1'' DOC_REVIEW REJECTED REJECT"
proof -
  obtain proposal where "mem_getProposalDetail db_doc_review ''P0'' = Some proposal"
    and st: "ProposalDetail.stage proposal = DOC_REVIEW"
    using doc_review_stage by auto
  then have h1: "getProposalDetail memStorage db_doc_review ''P0'' = Returned (Some proposal)"
    by (simp add: memStorage_calls)
  have h2: "ProposalDetail.stage proposal \<noteq> APPROVED"
    and h3: "ProposalDetail.stage proposal \<noteq> REJECTED"
    and h4: "InsertDecision.stage (parsed_decision DOC_REVIEW d) = ProposalDetail.stage proposal"
    for d
    by (simp_all add: st parsed_decision_simps)
  from transition_table [OF h1 h2 h3 h4, of APPROVE] transition_table [OF h1 h2 h3 h4, of REJECT]
  show ?thesis
    by (simp add: st memStorage_calls first_decision_id parsed_decision_simps
        reference_transition_def)
qed

subsection \<open>Claimed stages outside the schema\<close>

text \<open>
  C9. The decision schema admits only the claimed stages \<open>DOC_REVIEW\<close> and
  \<open>RISK_REVIEW\<close>. A request body whose \<open>stage\<close> is \<open>APPROVED\<close>, \<open>REJECTED\<close> or
  \<open>CHANGES_REQUESTED\<close> fails \<open>safeParse\<close> and is answered as an invalid decision payload,
  whatever the repository holds (the proposal is not even looked up), never as one of
  the transition refusals; the repository is returned unchanged.
\<close>

theorem schema_rejects_other_claimed_stages:
  fixes kvs :: "(string \<times> 'n json) list"
  assumes "map_of kvs ''stage'' = Some (JStr claimed)"
    and "claimed = ''APPROVED'' \<or> claimed = ''REJECTED'' \<or> claimed = ''CHANGES_REQUESTED''"
  shows "insertDecisionSchema (Some (JObj kvs)) = None
         \<and> decide storage db pid (Some (JObj kvs)) = (InvalidDecisionPayload, db)
         \<and> (\<forall>(b :: 'n json option) d. insertDecisionSchema b = Some d \<longrightarrow>
              InsertDecision.stage d = DOC_REVIEW \<or> InsertDecision.stage d = RISK_REVIEW)"
proof -
  from assms have none: "insertDecisionSchema (Some (JObj kvs)) = None"
    by auto
  then have "decide storage db pid (Some (JObj kvs)) = (InvalidDecisionPayload, db)"
    by (simp add: decide_def)
  moreover have "\<forall>(b :: 'n json option) d. insertDecisionSchema b = Some d \<longrightarrow>
              InsertDecision.stage d = DOC_REVIEW \<or> InsertDecision.stage d = RISK_REVIEW"
    using insertDecisionSchema_stage by blast
  ultimately show ?thesis
    using none by blast
qed

theorem schema_rejects_other_claimed_stages_witness:
  "decide memStorage db_doc_review ''P0''
     (Some (JObj [(''stage'', JStr ''CHANGES_REQUESTED''), (''decision'', JStr ''APPROVE''),
                  (''reasons'', JArr []), (''userId'', JStr ''u1'')] :: int json))
     = (InvalidDecisionPayload, db_doc_review)"
proof -
  have h1: "map_of [(''stage'', JStr ''CHANGES_REQUESTED''), (''decision'', JStr ''APPROVE''),
                    (''reasons'', JArr []), (''userId'', JStr ''u1'')] ''stage''
            = Some (JStr ''CHANGES_REQUESTED'' :: int json)"
    by simp
  have h2: "''CHANGES_REQUESTED'' = ''APPROVED'' \<or> ''CHANGES_REQUESTED'' = ''REJECTED''
            \<or> ''CHANGES_REQUESTED'' = ''CHANGES_REQUESTED''"
    by simp
  from schema_rejects_other_claimed_stages [OF h1 h2, of memStorage db_doc_review "''P0''"]
  show ?thesis
    by simp
qed

subsection \<open>The stage update follows the record\<close>




text \<open>
  The return for an invalid approval stage is placed after \<open>createDecision\<close>: could a
  parsed request claim \<open>CHANGES_REQUESTED\<close>, the record would stay behind. The schema
  rules such a request out (\<open>insertDecisionSchema_stage\<close>).
\<close>

lemma invalid_approval_return_follows_createDecision:
  assumes "getProposalDetail storage db pid = Returned (Some proposal)"
    and "ProposalDetail.stage proposal = CHANGES_REQUESTED"
    and "InsertDecision.stage d = CHANGES_REQUESTED"
    and "InsertDecision.decision d = APPROVE"
    and "createDecision storage db pid d = (Returned created, db1)"
  shows "decide_parsed storage db pid d = (InvalidApprovalStage, db1)"
  using assms by (simp add: decide_parsed_def newStage_of_def)

section \<open>Normalization\<close>

subsection \<open>The operators on optional strings\<close>

lemma or_else_not_given: "\<not> given v \<Longrightarrow> or_else v d = d"
  by (cases v) (auto simp: given_def)

lemma or_else_Some_or_else: "or_else (Some (or_else v d)) d = or_else v d"
  by (cases v) auto

lemma or_else_nonempty: "d \<noteq> [] \<Longrightarrow> or_else v d \<noteq> []"
  by (cases v) auto

lemma or_else_Some_nonempty: "s \<noteq> [] \<Longrightarrow> or_else (Some s) d = s"
  by simp

lemma or_else_empty: "or_else v [] = nullish v []"
  by (cases v) auto

subsection \<open>Members\<close>

lemma bo_json_parses: "memberSchema (Some bo_json) = Some bo_member"
  by (simp add: bo_json_def bo_member_def member_has_name_def member_has_amount_def given_def)

lemma bo_normalized:
  "NormalizedMember.name (normalizeMember bo_member 0) = ''Bo Lee''"
  "NormalizedMember.loanAmount (normalizeMember bo_member 0) = 50"
  by (simp_all add: bo_member_def normalizeMember_def trim_def is_space_def)

text \<open>
  C6, as the claim states it, fails where the identifier is given and empty: the member
  \<open>{memberId: "", name: "Ana", loanAmount: 100}\<close> passes \<open>memberSchema\<close>, and at position 0
  its normalized identifier is the synthesized \<open>M1\<close>, not the identifier given.
\<close>

theorem member_identifier_counterexample:
  "memberSchema (Some blank_id_json) = Some blank_id_member
   \<and> Member.memberId blank_id_member = Some []
   \<and> NormalizedMember.memberId (normalizeMember blank_id_member 0) = ''M1''"
  by (simp add: blank_id_json_def blank_id_member_def member_has_name_def member_has_amount_def given_def
      normalizeMember_def digit_char_def)

text \<open>
  C6, amended. For every member and zero-based position \<open>i\<close>: the normalized identifier
  is the given one when it is not empty, and \<open>M\<close> followed by \<open>i + 1\<close> when it is absent
  or empty; the name is the single-name field when present and not empty, else first and
  last name (an absent one read as empty) joined by one space and trimmed; the loan
  amount is \<open>loanAmount\<close> when present, else \<open>requestedAmount\<close>, else 0; every other field,
  \<open>requestedAmount\<close> included, is passed through. The member
  \<open>{firstName: "Bo", lastName: "Lee", requestedAmount: 50}\<close> gets the name \<open>Bo Lee\<close> and the
  loan amount 50.
\<close>

theorem normalizeMember_rules:
  fixes member :: "('n::zero) Member"
  shows "(\<forall>s. Member.memberId member = Some s \<longrightarrow> s \<noteq> [] \<longrightarrow>
            NormalizedMember.memberId (normalizeMember member i) = s)
       \<and> (\<not> given (Member.memberId member) \<longrightarrow>
            NormalizedMember.memberId (normalizeMember member i) = ''M'' @ string_of_nat (i + 1))
       \<and> (\<forall>s. Member.name member = Some s \<longrightarrow> s \<noteq> [] \<longrightarrow>
            NormalizedMember.name (normalizeMember member i) = s)
       \<and> (\<not> given (Member.name member) \<longrightarrow>
            NormalizedMember.name (normalizeMember member i)
              = trim (nullish (Member.firstName member) [] @ '' ''
                      @ nullish (Member.lastName member) []))
       \<and> (\<forall>a. Member.loanAmount member = Some a \<longrightarrow>
            NormalizedMember.loanAmount (normalizeMember member i) = a)
       \<and> (\<forall>r. Member.loanAmount member = None \<longrightarrow> Member.requestedAmount member = Some r \<longrightarrow>
            NormalizedMember.loanAmount (normalizeMember member i) = r)
       \<and> (Member.loanAmount member = None \<longrightarrow> Member.requestedAmount member = None \<longrightarrow>
            NormalizedMember.loanAmount (normalizeMember member i) = 0)
       \<and> NormalizedMember.firstName (normalizeMember member i) = Member.firstName member
       \<and> NormalizedMember.lastName (normalizeMember member i) = Member.lastName member
       \<and> NormalizedMember.requestedAmount (normalizeMember member i)
           = Member.requestedAmount member
       \<and> NormalizedMember.phone (normalizeMember member i) = Member.phone member
       \<and> NormalizedMember.idNumber (normalizeMember member i) = Member.idNumber member
       \<and> NormalizedMember.evidencePhotos (normalizeMember member i)
           = Member.evidencePhotos member
       \<and> NormalizedMember.signature (normalizeMember member i) = Member.signature member
       \<and> NormalizedMember.isLeader (normalizeMember member i) = Member.isLeader member
       \<and> memberSchema (Some bo_json) = Some bo_member
       \<and> NormalizedMember.name (normalizeMember bo_member 0) = ''Bo Lee''
       \<and> NormalizedMember.loanAmount (normalizeMember bo_member 0) = 50"
proof -
  have "?thesis = True"
    unfolding bo_json_parses bo_normalized
    by (simp add: normalizeMember_def Let_def or_else_not_given or_else_empty)
  then show ?thesis by simp
qed

theorem normalizeMember_rules_witness:
  "Member.name bo_member = None
   \<and> NormalizedMember.name (normalizeMember bo_member 0) = trim (''Bo'' @ '' '' @ ''Lee'')
   \<and> NormalizedMember.memberId (normalizeMember bo_member 0) = ''M1''
   \<and> NormalizedMember.loanAmount (normalizeMember bo_member 0) = 50"
proof -
  have f: "Member.name bo_member = None" "Member.memberId bo_member = None"
    "Member.firstName bo_member = Some ''Bo''" "Member.lastName bo_member = Some ''Lee''"
    "Member.loanAmount bo_member = None" "Member.requestedAmount bo_member = Some 50"
    by (simp_all add: bo_member_def)
  from normalizeMember_rules [of bo_member 0] show ?thesis
    by (simp add: f given_def digit_char_def)
qed

subsection \<open>Proposal payloads\<close>

lemma length_map_index: "length (map_index f i xs) = length xs"
  by (induction xs arbitrary: i) simp_all

lemma nth_map_index: "k < length xs \<Longrightarrow> map_index f i xs ! k = f (xs ! k) (i + k)"
  by (induction xs arbitrary: i k) (auto simp: nth_Cons split: nat.split)

lemma members_normalizeProposalPayload:
  "NormalizedProposalPayload.members (normalizeProposalPayload input)
     = map_index normalizeMember 0 (ProposalPayload.members input)"
  by (simp add: normalizeProposalPayload_def Let_def)

lemma foldl_loanAmount:
  "foldl (\<lambda>sum m. sum + NormalizedMember.loanAmount m) z ms
     = foldl (+) z (map NormalizedMember.loanAmount ms)"
  by (induction ms arbitrary: z) simp_all

lemma ana_body_parses: "proposalPayloadSchema (Some ana_body) = Some ana_payload"
  by (simp add: ana_body_def ana_payload_def member_has_name_def member_has_amount_def given_def)

lemma ana_normalized:
  "NormalizedProposalPayload.totalAmount (normalizeProposalPayload ana_payload) = 100"
  "NormalizedProposalPayload.leaderName (normalizeProposalPayload ana_payload) = ''Ana''"
  by (simp_all add: ana_payload_def normalizeProposalPayload_def normalizeMember_def
      find_leader_def Let_def)

lemma blank_names_body_parses:
  "proposalPayloadSchema (Some blank_names_body) = Some blank_names_payload"
  by (simp add: blank_names_body_def blank_names_payload_def member_has_name_def
      member_has_amount_def given_def)

text \<open>
  Where amounts form a monoid (integers, rationals), the left-to-right sum from 0 is the
  sum of the list.
\<close>

lemma total_is_sum_list:
  fixes input :: "('n::monoid_add) ProposalPayload"
  assumes "ProposalPayload.totalAmount input = None"
  shows "NormalizedProposalPayload.totalAmount (normalizeProposalPayload input)
           = sum_list (map NormalizedMember.loanAmount
               (NormalizedProposalPayload.members (normalizeProposalPayload input)))"
proof -
  have "foldl (+) z xs = z + sum_list xs" for z :: 'n and xs
    by (induction xs arbitrary: z) (simp_all add: add.assoc)
  from this [of 0] assms show ?thesis
    by (simp add: normalizeProposalPayload_def Let_def foldl_loanAmount)
qed

text \<open>
  C5, as the claim states it, fails where an explicit name is present and empty, and
  where the flagged leader's name is empty. The payload
  \<open>{groupId: "G1", groupName: "", leaderName: "", members: [Ana, a flagged member named
  " " " "]}\<close> passes the schema; its normalized group name is \<open>Group G1\<close>, not the explicit
  one, and its leader name is \<open>Unknown\<close>, which is neither the explicit leader name, nor
  the flagged member's name, nor the first member's.
\<close>

theorem explicit_names_counterexample:
  "proposalPayloadSchema (Some blank_names_body) = Some blank_names_payload
   \<and> ProposalPayload.groupName blank_names_payload = Some []
   \<and> NormalizedProposalPayload.groupName (normalizeProposalPayload blank_names_payload)
       = ''Group G1''
   \<and> ProposalPayload.leaderName blank_names_payload = Some []
   \<and> NormalizedProposalPayload.leaderName (normalizeProposalPayload blank_names_payload)
       = ''Unknown''"
  by (simp add: blank_names_body_parses)
     (simp add: blank_names_payload_def normalizeProposalPayload_def normalizeMember_def
       find_leader_def trim_def is_space_def)

text \<open>
  C5, amended. For every payload: the group name is the explicit one when it is not
  empty, else \<open>Group\<close> followed by the group id; the leader name is the explicit one
  when it is not empty, else the name of the leader (the first normalized member flagged
  as leader, or the first member when none is flagged) when that name is not empty, else
  \<open>Unknown\<close>; the total amount is the explicit one when present, else the sum, from 0 and
  from left to right, of the normalized members' loan amounts; the normalized members
  are as many as the input members and the k-th is the k-th input member normalized at
  position k. The payload \<open>{groupId: "G1", members: [{name: "Ana", loanAmount: 100}]}\<close>
  gets the total amount 100 and the leader name \<open>Ana\<close>.
\<close>

theorem normalizeProposalPayload_derived_fields:
  fixes input :: "('n::{zero,plus}) ProposalPayload"
  shows "(\<forall>g. ProposalPayload.groupName input = Some g \<longrightarrow> g \<noteq> [] \<longrightarrow>
            NormalizedProposalPayload.groupName (normalizeProposalPayload input) = g)
       \<and> (\<not> given (ProposalPayload.groupName input) \<longrightarrow>
            NormalizedProposalPayload.groupName (normalizeProposalPayload input)
              = ''Group '' @ ProposalPayload.groupId input)
       \<and> (\<forall>l. ProposalPayload.leaderName input = Some l \<longrightarrow> l \<noteq> [] \<longrightarrow>
            NormalizedProposalPayload.leaderName (normalizeProposalPayload input) = l)
       \<and> (\<forall>m. \<not> given (ProposalPayload.leaderName input) \<longrightarrow>
            find (\<lambda>m. NormalizedMember.isLeader m = Some True)
              (NormalizedProposalPayload.members (normalizeProposalPayload input)) = Some m \<longrightarrow>
            NormalizedProposalPayload.leaderName (normalizeProposalPayload input)
              = (if NormalizedMember.name m = [] then ''Unknown'' else NormalizedMember.name m))
       \<and> (\<forall>m rest. \<not> given (ProposalPayload.leaderName input) \<longrightarrow>
            find (\<lambda>m. NormalizedMember.isLeader m = Some True)
              (NormalizedProposalPayload.members (normalizeProposalPayload input)) = None \<longrightarrow>
            NormalizedProposalPayload.members (normalizeProposalPayload input) = m # rest \<longrightarrow>
            NormalizedProposalPayload.leaderName (normalizeProposalPayload input)
              = (if NormalizedMember.name m = [] then ''Unknown'' else NormalizedMember.name m))
       \<and> (\<not> given (ProposalPayload.leaderName input) \<longrightarrow>
            ProposalPayload.members input = [] \<longrightarrow>
            NormalizedProposalPayload.leaderName (normalizeProposalPayload input) = ''Unknown'')
       \<and> (\<forall>t. ProposalPayload.totalAmount input = Some t \<longrightarrow>
            NormalizedProposalPayload.totalAmount (normalizeProposalPayload input) = t)
       \<and> (ProposalPayload.totalAmount input = None \<longrightarrow>
            NormalizedProposalPayload.totalAmount (normalizeProposalPayload input)
              = foldl (+) 0 (map NormalizedMember.loanAmount
                  (NormalizedProposalPayload.members (normalizeProposalPayload input))))
       \<and> length (NormalizedProposalPayload.members (normalizeProposalPayload input))
           = length (ProposalPayload.members input)
       \<and> (\<forall>k < length (ProposalPayload.members input).
            NormalizedProposalPayload.members (normalizeProposalPayload input) ! k
              = normalizeMember (ProposalPayload.members input ! k) k)
       \<and> proposalPayloadSchema (Some ana_body) = Some ana_payload
       \<and> NormalizedProposalPayload.totalAmount (normalizeProposalPayload ana_payload) = 100
       \<and> NormalizedProposalPayload.leaderName (normalizeProposalPayload ana_payload) = ''Ana''"
proof -
  let ?np = "normalizeProposalPayload input"
  let ?ms = "map_index normalizeMember 0 (ProposalPayload.members input)"
  have ms: "NormalizedProposalPayload.members ?np = ?ms"
    by (rule members_normalizeProposalPayload)
  have gname: "NormalizedProposalPayload.groupName ?np
                 = or_else (ProposalPayload.groupName input)
                     (''Group '' @ ProposalPayload.groupId input)"
    and lname: "NormalizedProposalPayload.leaderName ?np
                 = or_else (ProposalPayload.leaderName input)
                     (or_else (map_option NormalizedMember.name (find_leader ?ms)) ''Unknown'')"
    and total: "NormalizedProposalPayload.totalAmount ?np
                 = nullish (ProposalPayload.totalAmount input)
                     (foldl (+) 0 (map NormalizedMember.loanAmount ?ms))"
    by (simp_all add: normalizeProposalPayload_def Let_def foldl_loanAmount)
  have c1: "\<forall>g. ProposalPayload.groupName input = Some g \<longrightarrow> g \<noteq> [] \<longrightarrow>
              NormalizedProposalPayload.groupName ?np = g"
    by (simp add: gname)
  have c2: "\<not> given (ProposalPayload.groupName input) \<longrightarrow>
              NormalizedProposalPayload.groupName ?np = ''Group '' @ ProposalPayload.groupId input"
    by (simp add: gname or_else_not_given)
  have c3: "\<forall>l. ProposalPayload.leaderName input = Some l \<longrightarrow> l \<noteq> [] \<longrightarrow>
              NormalizedProposalPayload.leaderName ?np = l"
    by (simp add: lname)
  have c4: "\<forall>m. \<not> given (ProposalPayload.leaderName input) \<longrightarrow>
              find (\<lambda>m. NormalizedMember.isLeader m = Some True)
                (NormalizedProposalPayload.members ?np) = Some m \<longrightarrow>
              NormalizedProposalPayload.leaderName ?np
                = (if NormalizedMember.name m = [] then ''Unknown'' else NormalizedMember.name m)"
    by (simp add: ms lname or_else_not_given find_leader_def)
  have c5: "\<forall>m rest. \<not> given (ProposalPayload.leaderName input) \<longrightarrow>
              find (\<lambda>m. NormalizedMember.isLeader m = Some True)
                (NormalizedProposalPayload.members ?np) = None \<longrightarrow>
              NormalizedProposalPayload.members ?np = m # rest \<longrightarrow>
              NormalizedProposalPayload.leaderName ?np
                = (if NormalizedMember.name m = [] then ''Unknown'' else NormalizedMember.name m)"
  proof (intro allI impI)
    fix m rest
    assume absent: "\<not> given (ProposalPayload.leaderName input)"
      and no_flag: "find (\<lambda>m. NormalizedMember.isLeader m = Some True)
                      (NormalizedProposalPayload.members ?np) = None"
      and first: "NormalizedProposalPayload.members ?np = m # rest"
    from no_flag have "find_leader ?ms = (case ?ms of [] \<Rightarrow> None | m # rest \<Rightarrow> Some m)"
      by (simp only: ms find_leader_def option.case)
    also from first have "\<dots> = Some m"
      by (simp only: ms list.case)
    finally show "NormalizedProposalPayload.leaderName ?np
                    = (if NormalizedMember.name m = [] then ''Unknown''
                       else NormalizedMember.name m)"
      using absent by (simp add: lname or_else_not_given)
  qed
  have c6: "\<not> given (ProposalPayload.leaderName input) \<longrightarrow>
              ProposalPayload.members input = [] \<longrightarrow>
              NormalizedProposalPayload.leaderName ?np = ''Unknown''"
    by (simp add: lname or_else_not_given find_leader_def)
  have c7: "\<forall>t. ProposalPayload.totalAmount input = Some t \<longrightarrow>
              NormalizedProposalPayload.totalAmount ?np = t"
    by (simp add: total)
  have c8: "ProposalPayload.totalAmount input = None \<longrightarrow>
              NormalizedProposalPayload.totalAmount ?np
                = foldl (+) 0 (map NormalizedMember.loanAmount
                    (NormalizedProposalPayload.members ?np))"
    by (simp add: total ms)
  have c9: "length (NormalizedProposalPayload.members ?np)
              = length (ProposalPayload.members input)"
    by (simp add: ms length_map_index)
  have c10: "\<forall>k < length (ProposalPayload.members input).
               NormalizedProposalPayload.members ?np ! k
                 = normalizeMember (ProposalPayload.members input ! k) k"
    by (simp add: ms nth_map_index)
  from c1 c2 c3 c4 c5 c6 c7 c8 c9 c10 ana_body_parses ana_normalized show ?thesis
    by blast
qed

theorem normalizeProposalPayload_derived_fields_witness:
  "ProposalPayload.groupName ana_payload = None
   \<and> NormalizedProposalPayload.groupName (normalizeProposalPayload ana_payload) = ''Group G1''
   \<and> length (NormalizedProposalPayload.members (normalizeProposalPayload ana_payload)) = 1
   \<and> NormalizedProposalPayload.totalAmount (normalizeProposalPayload ana_payload) = 100
   \<and> NormalizedProposalPayload.leaderName (normalizeProposalPayload ana_payload) = ''Ana''"
proof -
  have f: "ProposalPayload.groupName ana_payload = None"
    "ProposalPayload.groupId ana_payload = ''G1''"
    "length (ProposalPayload.members ana_payload) = 1"
    by (simp_all add: ana_payload_def)
  from normalizeProposalPayload_derived_fields [of ana_payload] show ?thesis
    by (simp add: f given_def)
qed

subsection \<open>Normalizing twice\<close>

lemma normalizeMember_as_Member:
  "normalizeMember (as_Member (normalizeMember m i)) i = normalizeMember m i"
  by (simp add: normalizeMember_def as_Member_def Let_def or_else_Some_or_else
      or_else_Some_nonempty or_else_nonempty del: or_else.simps)

lemma map_index_normalizeMember_again:
  "map_index normalizeMember i (map as_Member (map_index normalizeMember i ms))
     = map_index normalizeMember i ms"
  by (induction ms arbitrary: i) (simp_all add: normalizeMember_as_Member)

text \<open>
  C8. Normalizing a payload that is already normalized changes nothing: the members,
  the leader name and the total amount of the second result are those of the first,
  and so is every other field. This holds for every payload, valid or not.
\<close>

theorem normalizeProposalPayload_idempotent:
  "normalizeProposalPayload (as_ProposalPayload (normalizeProposalPayload input))
     = normalizeProposalPayload input"
  by (simp add: normalizeProposalPayload_def as_ProposalPayload_def Let_def
      map_index_normalizeMember_again or_else_Some_nonempty or_else_nonempty
      del: or_else.simps)

theorem normalizeProposalPayload_idempotent_witness:
  "normalizeProposalPayload (as_ProposalPayload (normalizeProposalPayload ana_payload))
     = normalizeProposalPayload ana_payload
   \<and> NormalizedProposalPayload.totalAmount
       (normalizeProposalPayload (as_ProposalPayload (normalizeProposalPayload ana_payload)))
       = 100
   \<and> NormalizedProposalPayload.leaderName
       (normalizeProposalPayload (as_ProposalPayload (normalizeProposalPayload ana_payload)))
       = ''Ana''"
  using normalizeProposalPayload_idempotent [of ana_payload] ana_normalized
  by simp

section \<open>The submission handler\<close>

lemma rawBody_of_truthy: "truthy (Some b) \<Longrightarrow> rawBody_of (Some b) = b"
  by (cases b) (simp_all add: rawBody_of_def)

lemma normalizedBody_of_envelope:
  assumes "map_of envelope ''payload'' = Some inner"
    and "truthy (Some inner) \<and> typeof_object (Some inner)"
  shows "normalizedBody_of (rawBody_of (Some (JObj envelope))) = inner"
  using assms by (simp add: rawBody_of_def normalizedBody_of_def)

lemma normalizedBody_of_direct:
  "\<not> carries_payload b \<Longrightarrow> normalizedBody_of b = b"
  by (auto simp: normalizedBody_of_def carries_payload_def split: option.split)

lemma submit_cases:
  "submit storage db body =
     (case proposalPayloadSchema (Some (normalizedBody_of (rawBody_of body))) of
        None \<Rightarrow>
          (InvalidProposalPayload (truthy (get_prop (Some (rawBody_of body)) ''payload''))
             (incomingProposalId_of (rawBody_of body) (normalizedBody_of (rawBody_of body)))
             (object_keys (normalizedBody_of (rawBody_of body))), db)
      | Some parsed \<Rightarrow>
          (case fst (createProposal storage db (normalizeProposalPayload parsed)) of
             Thrown \<Rightarrow> SubmitServerError
           | Returned proposal \<Rightarrow>
               ProposalCreated (Proposal.proposalId proposal) (Proposal.stage proposal)
                 (Proposal.submittedAt proposal),
           snd (createProposal storage db (normalizeProposalPayload parsed))))"
  by (simp add: submit_def Let_def split: option.split prod.split outcome.split)

lemma ana_shape:
  "map_of [(''proposalId'', JStr ''ignored''), (''payload'', ana_body)] ''payload'' = Some ana_body"
  "truthy (Some ana_body) \<and> typeof_object (Some ana_body)"
  "\<not> carries_payload ana_body"
  by (simp_all add: ana_body_def carries_payload_def)

lemma ana_submitted: "submit_status (fst (submit memStorage empty_db (Some ana_body))) = 201"
  by code_simp

text \<open>
  C7, as the claim states it, fails for a payload that has a \<open>payload\<close> key of its own.
  \<open>{groupId: "G1", members: [Ana], payload: {}}\<close> is accepted inside an envelope (the
  schema strips the unknown key) and a proposal is created; submitted directly, its
  inner \<open>{}\<close> becomes the candidate and the request is refused.
\<close>

theorem envelope_counterexample:
  "normalizedBody_of (rawBody_of (Some (envelope_of nested_payload_body))) = nested_payload_body
   \<and> submit_status (fst (submit memStorage empty_db (Some (envelope_of nested_payload_body))))
       = 201
   \<and> normalizedBody_of (rawBody_of (Some nested_payload_body)) = JObj []
   \<and> submit_status (fst (submit memStorage empty_db (Some nested_payload_body))) = 400"
  by code_simp

text \<open>
  C7, amended. Let a body hold, under \<open>payload\<close>, an object (or array) that does not
  itself hold an object under \<open>payload\<close>. Whatever else the envelope contains, the
  candidate handed to the schema is that inner value, as it is when the inner value is
  submitted directly; hence both submissions have the same status and leave the same
  repository: unchanged when validation fails, and after \<open>createProposal\<close> of the
  normalized inner payload, with the same answer, when it succeeds. A body without a
  \<open>payload\<close> key is its own candidate.
\<close>

theorem envelope_and_direct_converge:
  fixes inner :: "('n::{zero,plus}) json"
  assumes "map_of envelope ''payload'' = Some inner"
    and "truthy (Some inner) \<and> typeof_object (Some inner)"
    and "\<not> carries_payload inner"
  shows "normalizedBody_of (rawBody_of (Some (JObj envelope))) = inner
       \<and> normalizedBody_of (rawBody_of (Some inner)) = inner
       \<and> submit_status (fst (submit storage db (Some (JObj envelope))))
           = submit_status (fst (submit storage db (Some inner)))
       \<and> snd (submit storage db (Some (JObj envelope))) = snd (submit storage db (Some inner))
       \<and> (proposalPayloadSchema (Some inner) = None \<longrightarrow>
            snd (submit storage db (Some (JObj envelope))) = db)
       \<and> (\<forall>parsed. proposalPayloadSchema (Some inner) = Some parsed \<longrightarrow>
            submit storage db (Some (JObj envelope)) = submit storage db (Some inner)
            \<and> snd (submit storage db (Some (JObj envelope)))
                = snd (createProposal storage db (normalizeProposalPayload parsed)))
       \<and> (\<forall>b :: 'n json. get_prop (Some b) ''payload'' = None \<longrightarrow> normalizedBody_of b = b)"
proof -
  have env: "normalizedBody_of (rawBody_of (Some (JObj envelope))) = inner"
    using assms(1,2) by (rule normalizedBody_of_envelope)
  have dir: "normalizedBody_of (rawBody_of (Some inner)) = inner"
    using assms(2,3) by (simp add: rawBody_of_truthy normalizedBody_of_direct)
  have nokey: "\<forall>b :: 'n json. get_prop (Some b) ''payload'' = None \<longrightarrow> normalizedBody_of b = b"
    by (simp add: normalizedBody_of_def)
  show ?thesis
  proof (cases "proposalPayloadSchema (Some inner)")
    case None
    with env dir nokey show ?thesis
      by (simp add: submit_cases)
  next
    case (Some parsed)
    with env dir nokey show ?thesis
      by (simp add: submit_cases)
  qed
qed

theorem envelope_and_direct_converge_witness:
  "submit memStorage empty_db (Some (envelope_of ana_body))
     = submit memStorage empty_db (Some ana_body)
   \<and> submit_status (fst (submit memStorage empty_db (Some (envelope_of ana_body)))) = 201"
  using envelope_and_direct_converge [OF ana_shape, of memStorage empty_db]
    ana_body_parses ana_submitted
  by (simp add: envelope_of_def)

end
